theory Spec2Isabelle
  imports Main "HOL-Library.Word"
begin

unbundle bit_operations_syntax

section \<open>The conditional tokens contract module\<close>

text \<open>
  A shallow embedding of \<^verbatim>\<open>packages/valory/contracts/conditional_tokens/contract.py\<close>.
  Python integers are \<^typ>\<open>int\<close>, bytes are lists of 8-bit words, an operation that can
  raise returns \<open>py_exception + 'a\<close> with \<open>Inl\<close> for the exception raised.
\<close>

subsection \<open>Python values and exceptions\<close>

type_synonym byte = "8 word"

datatype py_exception =
    TimeoutError
  | Urllib3ReadTimeoutError
  | RequestsReadTimeoutError
  | ValueError
  | TypeError
  | AttributeError
  | NotImplementedError
  | ClientError string

text \<open>The values the module puts into the mappings it returns.\<close>

datatype pyvalue =
    PNone
  | PBool bool
  | PInt int
  | PStr string
  | PList "pyvalue list"
  | PDict "(string \<times> pyvalue) list"

type_synonym jsonlike = "(string \<times> pyvalue) list"

text \<open>
  \<^verbatim>\<open>d[k] = v\<close> on a dict: an existing key keeps its place and gets the new value,
  a new key goes to the end.
\<close>

fun dict_set :: "('k \<times> 'v) list \<Rightarrow> 'k \<Rightarrow> 'v \<Rightarrow> ('k \<times> 'v) list" where
  "dict_set [] k v = [(k, v)]"
| "dict_set ((k', v') # d) k v = (if k' = k then (k, v) # d else (k', v') # dict_set d k v)"

text \<open>A list comprehension or \<^verbatim>\<open>map\<close> whose body can raise stops at the first exception.\<close>

fun map_raising :: "('a \<Rightarrow> py_exception + 'b) \<Rightarrow> 'a list \<Rightarrow> py_exception + 'b list" where
  "map_raising f [] = Inr []"
| "map_raising f (x # xs) =
     (case f x of
        Inl e \<Rightarrow> Inl e
      | Inr y \<Rightarrow> (case map_raising f xs of Inl e \<Rightarrow> Inl e | Inr ys \<Rightarrow> Inr (y # ys)))"

subsection \<open>Partitions\<close>

text \<open>\<^verbatim>\<open>range(count)\<close>: the integers from 0 up to \<open>count - 1\<close>, none when \<open>count \<le> 0\<close>.\<close>

definition py_range :: "int \<Rightarrow> int list" where
  "py_range count = [0..count - 1]"

text \<open>\<^verbatim>\<open>a << b\<close> on Python integers: a negative shift count raises ValueError.\<close>

definition lshift :: "int \<Rightarrow> int \<Rightarrow> py_exception + int" where
  "lshift a b = (if b < 0 then Inl ValueError else Inr (push_bit (nat b) a))"

text \<open>\<^verbatim>\<open>return list(map(lambda x: 1 << x, range(count)))\<close>\<close>

definition get_partitions :: "int \<Rightarrow> py_exception + int list" where
  "get_partitions count = map_raising (\<lambda>x. lshift 1 x) (py_range count)"

text \<open>The bitwise OR of a list of integers, from the left.\<close>

definition or_all :: "int list \<Rightarrow> int" where
  "or_all xs = foldl (OR) 0 xs"

subsection \<open>Text of bytes and integers\<close>

text \<open>\<^verbatim>\<open>bytes.hex()\<close>: two lower-case hexadecimal digits for each byte, no prefix.\<close>

definition hex_digit :: "nat \<Rightarrow> char" where
  "hex_digit n = ''0123456789abcdef'' ! n"

definition bytes_hex :: "byte list \<Rightarrow> string" where
  "bytes_hex bs = concat (map (\<lambda>b. [hex_digit (unat b div 16), hex_digit (unat b mod 16)]) bs)"

text \<open>
  \<^verbatim>\<open>bytes.fromhex(s)\<close>: white space between bytes is skipped, every byte is two
  hexadecimal digits (either case), anything else raises ValueError.
\<close>

definition hex_value :: "char \<Rightarrow> nat option" where
  "hex_value c =
     (let n = of_char c :: nat in
      if 48 \<le> n \<and> n \<le> 57 then Some (n - 48)
      else if 97 \<le> n \<and> n \<le> 102 then Some (n - 87)
      else if 65 \<le> n \<and> n \<le> 70 then Some (n - 55)
      else None)"

definition is_space :: "char \<Rightarrow> bool" where
  "is_space c = (of_char c \<in> {9, 10, 11, 12, 13, 32 :: nat})"

fun fromhex :: "string \<Rightarrow> py_exception + byte list" where
  "fromhex [] = Inr []"
| "fromhex [c] = (if is_space c then Inr [] else Inl ValueError)"
| "fromhex (c # d # cs) =
     (if is_space c then fromhex (d # cs)
      else (case (hex_value c, hex_value d) of
              (Some hi, Some lo) \<Rightarrow>
                (case fromhex cs of
                   Inl e \<Rightarrow> Inl e
                 | Inr bs \<Rightarrow> Inr (word_of_nat (16 * hi + lo) # bs))
            | _ \<Rightarrow> Inl ValueError))"


text \<open>\<^verbatim>\<open>int.from_bytes(bs, "big")\<close>\<close>

definition int_from_bytes_big :: "byte list \<Rightarrow> int" where
  "int_from_bytes_big bs = foldl (\<lambda>acc b. acc * 256 + uint b) 0 bs"

text \<open>\<^verbatim>\<open>str(i)\<close>, which is what an f-string puts for an integer.\<close>

fun digits :: "nat \<Rightarrow> string" where
  "digits n =
     (if n < 10 then [''0123456789'' ! n]
      else digits (n div 10) @ [''0123456789'' ! (n mod 10)])"

definition str_int :: "int \<Rightarrow> string" where
  "str_int i = (if i < 0 then CHR ''-'' # digits (nat (- i)) else digits (nat i))"

subsection \<open>The bounded executor\<close>

text \<open>
  \<^verbatim>\<open>execute_with_timeout(func, timeout)\<close> submits \<open>func\<close> once to a thread pool of one
  worker and waits for the future with \<^verbatim>\<open>future.result(timeout=timeout)\<close>. What the
  caller sees depends on what the worker does relative to the timeout, which is the
  \<open>run\<close> of \<open>func\<close>: it completes before the timeout has elapsed, returning a value or
  raising; it completes only after the timeout has elapsed; or it never completes.

  The value \<open>func\<close> returns is \<^verbatim>\<open>Any\<close>; the code asks one thing of it, whether it is
  an instance of \<^verbatim>\<open>str\<close>.

  The timeout is a Python float. Besides handing it to the future, the code formats
  it into the message; the model keeps a timeout as the text the f-string gives for it
  (\<^verbatim>\<open>300.0\<close> for \<^verbatim>\<open>FIVE_MINUTES\<close>).
\<close>

datatype 'a py_any = PyStr string | PyObj 'a

datatype 'a outcome = Returns 'a | Raises py_exception

datatype 'a run = Completes "'a outcome" | Completes_late | Never_completes

datatype timeout = Seconds (shown: string)

definition FIVE_MINUTES :: timeout where
  "FIVE_MINUTES = Seconds ''300.0''"

definition DEFAULT_OUTCOME_SLOT :: int where
  "DEFAULT_OUTCOME_SLOT = 2"

definition timeout_message :: "timeout \<Rightarrow> string" where
  "timeout_message timeout = ''The RPC didn't respond in '' @ shown timeout @ ''.''"

text \<open>
  The result is \<open>None\<close> when the call never returns, \<open>Some (Inl e)\<close> when it raises
  \<open>e\<close>, and \<open>Some (Inr (data, err))\<close> for the pair it returns.
  \<^item> \<^verbatim>\<open>future.result(timeout=timeout)\<close> returns what \<open>func\<close> returned, raises what
    \<open>func\<close> raised, and raises \<^verbatim>\<open>TimeoutError\<close> when the timeout elapses first
    (the \<^verbatim>\<open>TimeoutError\<close> of \<^verbatim>\<open>concurrent.futures\<close> is the builtin one that the
    \<^verbatim>\<open>except\<close> clause names, as from Python 3.11 on).
  \<^item> The \<^verbatim>\<open>except TimeoutError\<close> clause also catches a \<^verbatim>\<open>TimeoutError\<close> raised
    by \<open>func\<close> itself; any other exception of \<open>func\<close> leaves the function.
  \<^item> Every \<^verbatim>\<open>return\<close> is inside the \<^verbatim>\<open>with ThreadPoolExecutor(...)\<close> block, and
    leaving that block calls \<^verbatim>\<open>shutdown(wait=True)\<close>, which joins the worker thread:
    the caller gets the result once \<open>func\<close> has completed, and never if \<open>func\<close> does not.
\<close>

definition execute_with_timeout ::
  "'a py_any run \<Rightarrow> timeout \<Rightarrow> (py_exception + ('a py_any option \<times> string option)) option" where
  "execute_with_timeout func timeout =
     (case func of
        Never_completes \<Rightarrow> None
      | Completes_late \<Rightarrow> Some (Inr (None, Some (timeout_message timeout)))
      | Completes (Raises e) \<Rightarrow>
          (if e = TimeoutError then Some (Inr (None, Some (timeout_message timeout)))
           else Some (Inl e))
      | Completes (Returns data) \<Rightarrow>
          (case data of
             PyStr s \<Rightarrow> Some (Inr (None, Some s))
           | PyObj x \<Rightarrow> Some (Inr (Some (PyObj x), None))))"

subsection \<open>The chain client\<close>

text \<open>
  The ledger API, web3 and the contract instance are collaborators outside the module.
  The model takes them as a record of the functions the module calls; each returns a
  value or raises. \<^verbatim>\<open>cls.get_instance(ledger_api, contract_address)\<close> is taken to
  succeed, and the contract functions of the record are those of that instance.
  Only the event query carries a run: it is the one call the module puts under
  \<open>execute_with_timeout\<close>.
\<close>

datatype abi_value = AStr string | ABytes "byte list" | AInt int | AIntList "int list"

datatype cond_id = IdBytes "byte list" | IdStr string

record event_args =
  conditionId :: "cond_id option"
  payout :: "int option"

record log_entry =
  args :: "event_args option"

record payout_filter =
  match_redeemer :: string
  match_collateralToken :: "string list"
  match_parentCollectionId :: "byte list list"
  match_conditionId :: "byte list list"
  match_indexSets :: "int list list"
  fromBlock :: int
  toBlock :: int

record chain_client =
  to_checksum_address :: "string \<Rightarrow> py_exception + string"
  solidity_keccak :: "string list \<Rightarrow> abi_value list \<Rightarrow> py_exception + byte list"
  encodeABI :: "string \<Rightarrow> abi_value list \<Rightarrow> py_exception + string"
  get_all_entries :: "payout_filter \<Rightarrow> log_entry list run"
  payoutDenominator :: "byte list \<Rightarrow> py_exception + int"
  getCollectionId :: "string \<Rightarrow> string \<Rightarrow> int \<Rightarrow> py_exception + byte list"
  balanceOf :: "string \<Rightarrow> int \<Rightarrow> py_exception + int"

text \<open>Sequencing of calls that can raise: the first exception ends the computation.\<close>

definition and_then :: "py_exception + 'a \<Rightarrow> ('a \<Rightarrow> py_exception + 'b) \<Rightarrow> py_exception + 'b" where
  "and_then r f = (case r of Inl e \<Rightarrow> Inl e | Inr x \<Rightarrow> f x)"

subsection \<open>check\_redeemed\<close>

definition rpc_timed_out_message :: "int \<Rightarrow> int \<Rightarrow> string" where
  "rpc_timed_out_message from_block to_block =
     ''The RPC timed out! This usually happens if the filtering is too wide. ''
     @ ''The service tried to filter from block '' @ str_int from_block
     @ '' to '' @ str_int to_block @ ''. ''
     @ ''If this issue persists, please try lowering the `EVENT_FILTERING_BATCH_SIZE`!''"

text \<open>
  The inner function \<^verbatim>\<open>get_redeem_events\<close>. The checksums are computed before the
  \<^verbatim>\<open>try\<close>, so an exception of theirs leaves the function; inside the \<^verbatim>\<open>try\<close>,
  building, deploying and reading the filter is one query of the client, and the two
  read-timeout exceptions become the message, returned as a string.
\<close>

definition get_redeem_events ::
  "chain_client \<Rightarrow> string \<Rightarrow> int \<Rightarrow> int \<Rightarrow> string list \<Rightarrow> byte list list \<Rightarrow> byte list list
     \<Rightarrow> int list list \<Rightarrow> log_entry list py_any run" where
  "get_redeem_events ledger_api redeemer from_block to_block collateral_tokens
       parent_collection_ids condition_ids index_sets =
     (case to_checksum_address ledger_api redeemer of
        Inl e \<Rightarrow> Completes (Raises e)
      | Inr redeemer_checksummed \<Rightarrow>
          (case map_raising (to_checksum_address ledger_api) collateral_tokens of
             Inl e \<Rightarrow> Completes (Raises e)
           | Inr collateral_tokens_checksummed \<Rightarrow>
               (case get_all_entries ledger_api
                       \<lparr>match_redeemer = redeemer_checksummed,
                        match_collateralToken = collateral_tokens_checksummed,
                        match_parentCollectionId = parent_collection_ids,
                        match_conditionId = condition_ids,
                        match_indexSets = index_sets,
                        fromBlock = from_block,
                        toBlock = to_block\<rparr> of
                  Completes (Returns redeemed) \<Rightarrow> Completes (Returns (PyObj redeemed))
                | Completes (Raises e) \<Rightarrow>
                    (if e = Urllib3ReadTimeoutError \<or> e = RequestsReadTimeoutError
                     then Completes (Returns (PyStr (rpc_timed_out_message from_block to_block)))
                     else Completes (Raises e))
                | Completes_late \<Rightarrow> Completes_late
                | Never_completes \<Rightarrow> Never_completes)))"

text \<open>
  The key under which an entry's payout is stored: \<^verbatim>\<open>condition_id.hex()\<close> when the
  id is bytes, the id itself otherwise.
\<close>

fun payout_key :: "cond_id \<Rightarrow> string" where
  "payout_key (IdBytes b) = bytes_hex b"
| "payout_key (IdStr s) = s"

text \<open>
  The loop over \<^verbatim>\<open>redeemed\<close>, with the dict \<^verbatim>\<open>payouts\<close> as accumulator.
  \<^verbatim>\<open>redeeming.get("args", {})\<close> is the empty dict when the entry has no \<^verbatim>\<open>args\<close>;
  a missing \<^verbatim>\<open>conditionId\<close> reads as \<^verbatim>\<open>None\<close>, a missing \<^verbatim>\<open>payout\<close> as 0.
\<close>

definition get_args :: "log_entry \<Rightarrow> event_args" where
  "get_args redeeming =
     (case args redeeming of
        None \<Rightarrow> \<lparr>conditionId = None, payout = None\<rparr>
      | Some a \<Rightarrow> a)"

definition get_payout :: "event_args \<Rightarrow> int" where
  "get_payout a = (case payout a of None \<Rightarrow> 0 | Some p \<Rightarrow> p)"

fun collect_payouts :: "(string \<times> pyvalue) list \<Rightarrow> log_entry list \<Rightarrow> (string \<times> pyvalue) list" where
  "collect_payouts payouts [] = payouts"
| "collect_payouts payouts (redeeming # rest) =
     (case conditionId (get_args redeeming) of
        Some condition_id \<Rightarrow>
          (if get_payout (get_args redeeming) > 0
           then collect_payouts
                  (dict_set payouts (payout_key condition_id)
                     (PInt (get_payout (get_args redeeming)))) rest
           else collect_payouts payouts rest)
      | None \<Rightarrow> collect_payouts payouts rest)"

text \<open>
  \<open>check_redeemed\<close> itself. With no error the loop runs over \<^verbatim>\<open>redeemed\<close>; the
  last two cases are what the loop would do with a string (its characters have no
  \<^verbatim>\<open>get\<close>) and with \<^verbatim>\<open>None\<close> (not iterable), which the executor never returns
  without an error.
\<close>

definition check_redeemed ::
  "chain_client \<Rightarrow> string \<Rightarrow> int \<Rightarrow> int \<Rightarrow> string list \<Rightarrow> byte list list \<Rightarrow> byte list list
     \<Rightarrow> int list list \<Rightarrow> timeout \<Rightarrow> (py_exception + jsonlike) option" where
  "check_redeemed ledger_api redeemer from_block to_block collateral_tokens
       parent_collection_ids condition_ids index_sets timeout =
     (case execute_with_timeout
             (get_redeem_events ledger_api redeemer from_block to_block collateral_tokens
                parent_collection_ids condition_ids index_sets) timeout of
        None \<Rightarrow> None
      | Some (Inl e) \<Rightarrow> Some (Inl e)
      | Some (Inr (redeemed, Some err)) \<Rightarrow> Some (Inr [(''error'', PStr err)])
      | Some (Inr (Some (PyObj entries), None)) \<Rightarrow>
          Some (Inr [(''payouts'', PDict (collect_payouts [] entries))])
      | Some (Inr (Some (PyStr s), None)) \<Rightarrow>
          (if s = [] then Some (Inr [(''payouts'', PDict [])]) else Some (Inl AttributeError))
      | Some (Inr (None, None)) \<Rightarrow> Some (Inl TypeError))"

subsection \<open>check\_resolved and the handlers left unimplemented\<close>

definition check_resolved :: "chain_client \<Rightarrow> byte list \<Rightarrow> py_exception + jsonlike" where
  "check_resolved ledger_api condition_id =
     and_then (payoutDenominator ledger_api condition_id) (\<lambda>payout.
       if payout = 0 then Inr [(''resolved'', PBool False)]
       else Inr [(''resolved'', PBool True)])"

definition get_raw_transaction :: "chain_client \<Rightarrow> (string \<times> pyvalue) list \<Rightarrow> py_exception + jsonlike" where
  "get_raw_transaction ledger_api kwargs = Inl NotImplementedError"

definition get_raw_message :: "chain_client \<Rightarrow> (string \<times> pyvalue) list \<Rightarrow> py_exception + byte list" where
  "get_raw_message ledger_api kwargs = Inl NotImplementedError"

definition get_state :: "chain_client \<Rightarrow> (string \<times> pyvalue) list \<Rightarrow> py_exception + jsonlike" where
  "get_state ledger_api kwargs = Inl NotImplementedError"

subsection \<open>calculate\_condition\_id\<close>


subsection \<open>get\_user\_holdings and build\_merge\_positions\_tx\<close>

text \<open>
  \<^verbatim>\<open>get_user_holdings\<close> reaches the contract and the hash function through the
  client, once for every call in its text. To say how many calls it makes, a call is
  an effect in the model: a computation takes the list of the calls made so far and
  returns its result with the list of the calls made by then, and the only
  computations that return what \<open>getCollectionId\<close>, \<open>solidity_keccak\<close> and
  \<open>balanceOf\<close> return are the three below, each of which adds its call to the list.
  The checksum of an address is computed without a call.
\<close>

datatype chain_call =
    GetCollectionIdCall string string int
  | SolidityKeccakCall "string list" "abi_value list"
  | BalanceOfCall string int

type_synonym 'a calling = "chain_call list \<Rightarrow> (py_exception + 'a) \<times> chain_call list"

definition call_getCollectionId ::
  "chain_client \<Rightarrow> string \<Rightarrow> string \<Rightarrow> int \<Rightarrow> byte list calling" where
  "call_getCollectionId ledger_api parent c i calls =
     (getCollectionId ledger_api parent c i, calls @ [GetCollectionIdCall parent c i])"

definition call_solidity_keccak ::
  "chain_client \<Rightarrow> string list \<Rightarrow> abi_value list \<Rightarrow> byte list calling" where
  "call_solidity_keccak ledger_api types values calls =
     (solidity_keccak ledger_api types values, calls @ [SolidityKeccakCall types values])"

definition call_balanceOf :: "chain_client \<Rightarrow> string \<Rightarrow> int \<Rightarrow> int calling" where
  "call_balanceOf ledger_api owner position calls =
     (balanceOf ledger_api owner position, calls @ [BalanceOfCall owner position])"

definition without_call :: "py_exception + 'a \<Rightarrow> 'a calling" where
  "without_call r calls = (r, calls)"

text \<open>One computation after another: an exception ends it, with the calls made so far.\<close>

definition then_call :: "'a calling \<Rightarrow> ('a \<Rightarrow> 'b calling) \<Rightarrow> 'b calling" where
  "then_call m f calls =
     (case m calls of
        (Inl e, calls') \<Rightarrow> (Inl e, calls')
      | (Inr x, calls') \<Rightarrow> f x calls')"

text \<open>
  One pass of the loop body, for the partition element \<open>i\<close>, with the lists
  \<^verbatim>\<open>holdings\<close> and \<^verbatim>\<open>shares\<close> as they are before it and after it.
\<close>

definition holdings_step ::
  "chain_client \<Rightarrow> string \<Rightarrow> string \<Rightarrow> string \<Rightarrow> string \<Rightarrow> string
     \<Rightarrow> int \<Rightarrow> int list \<times> int list \<Rightarrow> (int list \<times> int list) calling" where
  "holdings_step ledger_api condition_id creator collateral_token market parent_collection_id
       i acc =
     (case acc of (holdings, shares) \<Rightarrow>
     then_call (call_getCollectionId ledger_api parent_collection_id condition_id i) (\<lambda>cid.
     let collection_id = int_from_bytes_big cid in
     then_call (without_call (to_checksum_address ledger_api collateral_token)) (\<lambda>token.
     then_call (call_solidity_keccak ledger_api [''address'', ''uint256'']
                  [AStr token, AInt collection_id]) (\<lambda>pid.
     let position_id = int_from_bytes_big pid in
     then_call (without_call (to_checksum_address ledger_api market)) (\<lambda>market_checksummed.
     then_call (call_balanceOf ledger_api market_checksummed position_id) (\<lambda>holding.
     then_call (without_call (to_checksum_address ledger_api creator)) (\<lambda>creator_checksummed.
     then_call (call_balanceOf ledger_api creator_checksummed position_id) (\<lambda>share.
       without_call (Inr (holdings @ [holding], shares @ [share]))))))))))"

fun holdings_loop ::
  "chain_client \<Rightarrow> string \<Rightarrow> string \<Rightarrow> string \<Rightarrow> string \<Rightarrow> string
     \<Rightarrow> int list \<Rightarrow> int list \<times> int list \<Rightarrow> (int list \<times> int list) calling" where
  "holdings_loop ledger_api condition_id creator collateral_token market parent_collection_id
       [] acc = without_call (Inr acc)"
| "holdings_loop ledger_api condition_id creator collateral_token market parent_collection_id
       (i # rest) acc =
     then_call (holdings_step ledger_api condition_id creator collateral_token market
                  parent_collection_id i acc)
       (holdings_loop ledger_api condition_id creator collateral_token market
          parent_collection_id rest)"

text \<open>
  \<open>get_user_holdings\<close>, from no calls made: what it returns or raises, and the calls
  it has made.
\<close>

definition get_user_holdings ::
  "chain_client \<Rightarrow> int \<Rightarrow> string \<Rightarrow> string \<Rightarrow> string \<Rightarrow> string \<Rightarrow> string
     \<Rightarrow> (py_exception + jsonlike) \<times> chain_call list" where
  "get_user_holdings ledger_api outcome_slot_count condition_id creator collateral_token market
       parent_collection_id =
     then_call (without_call (get_partitions outcome_slot_count)) (\<lambda>partition.
     then_call (holdings_loop ledger_api condition_id creator collateral_token market
                  parent_collection_id partition ([], [])) (\<lambda>(holdings, shares).
       without_call
         (Inr [(''holdings'', PList (map PInt holdings)),
               (''shares'', PList (map PInt shares))]))) []"

text \<open>
  \<^verbatim>\<open>build_merge_positions_tx\<close>: the partition comes from \<open>get_partitions\<close>; the
  keyword arguments \<^verbatim>\<open>**kwargs\<close> are accepted and not read.
\<close>

definition build_merge_positions_tx ::
  "chain_client \<Rightarrow> string \<Rightarrow> byte list \<Rightarrow> byte list \<Rightarrow> int \<Rightarrow> int
     \<Rightarrow> (string \<times> pyvalue) list \<Rightarrow> py_exception + jsonlike" where
  "build_merge_positions_tx ledger_api collateral_token parent_collection_id condition_id
       outcome_slot_count amount kwargs =
     and_then (get_partitions outcome_slot_count) (\<lambda>partition.
     and_then (to_checksum_address ledger_api collateral_token) (\<lambda>token.
     and_then (encodeABI ledger_api ''mergePositions''
                 [AStr token, ABytes parent_collection_id, ABytes condition_id,
                  AIntList partition, AInt amount]) (\<lambda>data.
       Inr [(''data'', PStr data)])))"

subsection \<open>Vocabulary of the properties\<close>

text \<open>
  What the aggregation is to record for a log entry, stated on the entry's own fields:
  nothing unless the entry has a condition id and a payout above zero, and then the
  payout under the key of the condition id, which is its text in hexadecimal when the
  id is bytes and the id itself otherwise.
\<close>

definition recorded :: "log_entry \<Rightarrow> (string \<times> int) option" where
  "recorded redeeming =
     (case args redeeming of
        None \<Rightarrow> None
      | Some a \<Rightarrow>
          (case conditionId a of
             None \<Rightarrow> None
           | Some c \<Rightarrow>
               (case payout a of
                  None \<Rightarrow> None
                | Some p \<Rightarrow>
                    if 0 < p
                    then Some (case c of IdBytes b \<Rightarrow> bytes_hex b | IdStr s \<Rightarrow> s, p)
                    else None)))"

text \<open>A log entry with both arguments present.\<close>

definition entry :: "cond_id \<Rightarrow> int \<Rightarrow> log_entry" where
  "entry c p = \<lparr>args = Some \<lparr>conditionId = Some c, payout = Some p\<rparr>\<rparr>"

text \<open>
  A client for the worked examples: addresses are their own checksum and every call
  returns. The examples replace single functions of it.
\<close>

definition example_client :: chain_client where
  "example_client =
     \<lparr>to_checksum_address = (\<lambda>a. Inr a),
      solidity_keccak = (\<lambda>types values. Inr [0x12, 0x34]),
      encodeABI = (\<lambda>fn_name arguments. Inr ''0x9e7212ad''),
      get_all_entries = (\<lambda>f. Completes (Returns [])),
      payoutDenominator = (\<lambda>c. Inr 1),
      getCollectionId = (\<lambda>parent c i. Inr [word_of_int i]),
      balanceOf = (\<lambda>owner position. Inr 10)\<rparr>"

text \<open>
  A client whose log query returns four entries: two for the condition id \<open>0xAA\<close>,
  with payouts 5 and 7, one for \<open>0xBB\<close> with payout 0, and one for \<open>0x01CD\<close> with
  payout 3.
\<close>

definition redeemed_client :: chain_client where
  "redeemed_client =
     example_client\<lparr>get_all_entries := \<lambda>f. Completes (Returns
        [entry (IdBytes [0xAA]) 5, entry (IdBytes [0xBB]) 0, entry (IdBytes [0xAA]) 7,
         entry (IdBytes [0x01, 0xCD]) 3])\<rparr>"

text \<open>
  A client whose log query raises a transport read-timeout and whose condition is not
  resolved, and a client whose log query completes after the timeout and whose
  contract reads raise.
\<close>

definition timing_out_client :: chain_client where
  "timing_out_client =
     example_client\<lparr>get_all_entries := \<lambda>f. Completes (Raises Urllib3ReadTimeoutError),
                    payoutDenominator := \<lambda>c. Inr 0\<rparr>"

definition failing_client :: chain_client where
  "failing_client =
     example_client\<lparr>get_all_entries := \<lambda>f. Completes_late,
                    payoutDenominator := \<lambda>c. Inl RequestsReadTimeoutError,
                    getCollectionId := \<lambda>parent c i. Inl (ClientError ''execution reverted'')\<rparr>"

text \<open>
  A client whose position ids and balances differ from one partition element to the
  next and between market and creator, and one whose balance read for the creator
  raises at the second partition element and whose log query raises a ValueError.
\<close>

definition holding_client :: chain_client where
  "holding_client =
     example_client
       \<lparr>solidity_keccak := \<lambda>types values.
          (case values of
             [AStr t, AInt c] \<Rightarrow> Inr [word_of_int c, 0x34]
           | _ \<Rightarrow> Inl (ClientError ''unexpected arguments'')),
        balanceOf := \<lambda>owner position.
          if owner = ''0xAA'' then Inr position else Inr (position + 1000)\<rparr>"

definition balance_failing_client :: chain_client where
  "balance_failing_client =
     holding_client
       \<lparr>balanceOf := \<lambda>owner position.
          if owner = ''0xBB'' \<and> position = 564 then Inl (ClientError ''execution reverted'')
          else Inr position,
        get_all_entries := \<lambda>f. Completes (Raises ValueError)\<rparr>"

text \<open>
  The kinds of call \<open>get_user_holdings\<close> makes: a collection-id derivation, a
  position-id derivation (the hash of the collateral token and the collection id) and
  a balance read; and the number of calls of one kind in a list of calls.
\<close>

datatype call_kind = CollectionId | PositionId | Balance

fun kind :: "chain_call \<Rightarrow> call_kind" where
  "kind (GetCollectionIdCall parent c i) = CollectionId"
| "kind (SolidityKeccakCall types values) = PositionId"
| "kind (BalanceOfCall owner position) = Balance"

definition count_calls :: "call_kind \<Rightarrow> chain_call list \<Rightarrow> nat" where
  "count_calls k calls = length (filter (\<lambda>c. kind c = k) calls)"

text \<open>
  What the holdings are to be for one partition element \<open>i\<close>, stated on the client:
  the collection id is derived for \<open>i\<close>, the position id is derived from the
  collateral token and that collection id, and the balance of that position is read
  for the market and for the creator. The reads are in this order, and the first that
  raises decides the exception.
\<close>

record element_reads =
  el_collection_id :: int
  el_token :: string
  el_position_id :: int
  el_market :: string
  el_holding :: int
  el_creator :: string
  el_share :: int

definition reads_of_element ::
  "chain_client \<Rightarrow> string \<Rightarrow> string \<Rightarrow> string \<Rightarrow> string \<Rightarrow> string \<Rightarrow> int
     \<Rightarrow> py_exception + element_reads" where
  "reads_of_element ledger_api condition_id creator collateral_token market parent_collection_id i =
     (case getCollectionId ledger_api parent_collection_id condition_id i of
        Inl e \<Rightarrow> Inl e
      | Inr cid \<Rightarrow>
     (case to_checksum_address ledger_api collateral_token of
        Inl e \<Rightarrow> Inl e
      | Inr t \<Rightarrow>
     (case solidity_keccak ledger_api [''address'', ''uint256'']
             [AStr t, AInt (int_from_bytes_big cid)] of
        Inl e \<Rightarrow> Inl e
      | Inr pid \<Rightarrow>
     (case to_checksum_address ledger_api market of
        Inl e \<Rightarrow> Inl e
      | Inr m \<Rightarrow>
     (case balanceOf ledger_api m (int_from_bytes_big pid) of
        Inl e \<Rightarrow> Inl e
      | Inr h \<Rightarrow>
     (case to_checksum_address ledger_api creator of
        Inl e \<Rightarrow> Inl e
      | Inr c \<Rightarrow>
     (case balanceOf ledger_api c (int_from_bytes_big pid) of
        Inl e \<Rightarrow> Inl e
      | Inr s \<Rightarrow>
          Inr \<lparr>el_collection_id = int_from_bytes_big cid, el_token = t,
               el_position_id = int_from_bytes_big pid, el_market = m, el_holding = h,
               el_creator = c, el_share = s\<rparr>)))))))"

text \<open>The four calls for the partition element \<open>i\<close> whose reads returned \<open>r\<close>.\<close>

definition calls_of_element :: "string \<Rightarrow> string \<Rightarrow> int \<Rightarrow> element_reads \<Rightarrow> chain_call list" where
  "calls_of_element parent_collection_id condition_id i r =
     [GetCollectionIdCall parent_collection_id condition_id i,
      SolidityKeccakCall [''address'', ''uint256'']
        [AStr (el_token r), AInt (el_collection_id r)],
      BalanceOfCall (el_market r) (el_position_id r),
      BalanceOfCall (el_creator r) (el_position_id r)]"

section \<open>Properties\<close>

subsection \<open>Helper lemmas\<close>

lemma map_raising_all_ok:
  "(\<And>x. x \<in> set xs \<Longrightarrow> f x = Inr (g x)) \<Longrightarrow> map_raising f xs = Inr (map g xs)"
  by (induction xs) simp_all

lemma py_range_nat: "py_range count = map int [0..<nat count]"
  unfolding py_range_def by (rule nth_equalityI) simp_all

lemma get_partitions_eq: "get_partitions n = Inr (map (\<lambda>k. 2 ^ k) [0..<nat n])"
proof -
  have "map_raising (\<lambda>x. lshift 1 x) (map int [0..<nat n])
        = Inr (map (\<lambda>x. 2 ^ nat x) (map int [0..<nat n]))"
    by (rule map_raising_all_ok) (auto simp: lshift_def)
  then show ?thesis
    by (simp add: get_partitions_def py_range_nat comp_def)
qed

lemma foldl_or_pow2: "foldl (OR) (mask i) (map (\<lambda>k. 2 ^ k) [i..<i + m]) = (mask (i + m) :: int)"
proof (induction m)
  case 0
  then show ?case by simp
next
  case (Suc m)
  then show ?case by (simp add: mask_Suc_exp or.commute)
qed

lemma or_all_pow2: "or_all (map (\<lambda>k. 2 ^ k) [0..<m]) = 2 ^ m - 1"
  using foldl_or_pow2 [of 0 m] by (simp add: or_all_def mask_eq_exp_minus_1)

lemma distinct_pow2: "distinct (map (\<lambda>k. (2::int) ^ k) [0..<m])"
  by (simp add: distinct_map inj_on_def)

lemma map_of_dict_set: "map_of (dict_set d k v) = (map_of d)(k \<mapsto> v)"
  by (induction d k v rule: dict_set.induct) auto

lemma keys_dict_set: "distinct (map fst d) \<Longrightarrow> distinct (map fst (dict_set d k v))"
  and set_keys_dict_set: "fst ` set (dict_set d k v) = insert k (fst ` set d)"
  by (induction d k v rule: dict_set.induct) auto

lemma collect_payouts_distinct:
  "distinct (map fst d) \<Longrightarrow> distinct (map fst (collect_payouts d es))"
  by (induction es arbitrary: d) (auto simp: keys_dict_set split: option.splits)

lemma check_redeemed_cases:
  assumes "to_checksum_address ledger_api redeemer = Inr r"
    and "map_raising (to_checksum_address ledger_api) collateral_tokens = Inr toks"
  shows "check_redeemed ledger_api redeemer from_block to_block collateral_tokens
           parent_collection_ids condition_ids index_sets timeout =
         (case get_all_entries ledger_api
                 \<lparr>match_redeemer = r, match_collateralToken = toks,
                  match_parentCollectionId = parent_collection_ids,
                  match_conditionId = condition_ids, match_indexSets = index_sets,
                  fromBlock = from_block, toBlock = to_block\<rparr> of
            Completes (Returns redeemed) \<Rightarrow>
              Some (Inr [(''payouts'', PDict (collect_payouts [] redeemed))])
          | Completes (Raises e) \<Rightarrow>
              (if e = Urllib3ReadTimeoutError \<or> e = RequestsReadTimeoutError
               then Some (Inr [(''error'', PStr (rpc_timed_out_message from_block to_block))])
               else if e = TimeoutError
               then Some (Inr [(''error'', PStr (timeout_message timeout))])
               else Some (Inl e))
          | Completes_late \<Rightarrow> Some (Inr [(''error'', PStr (timeout_message timeout))])
          | Never_completes \<Rightarrow> None)"
  using assms
  by (simp add: check_redeemed_def get_redeem_events_def execute_with_timeout_def
      split: run.splits outcome.splits)

lemma hex_value_hex_digit: "n < 16 \<Longrightarrow> hex_value (hex_digit n) = Some n"
proof -
  assume "n < 16"
  then have "n \<in> set [0..<16]" by simp
  then have "n \<in> {0, 1, 2, 3, 4, 5, 6, 7, 8, 9, 10, 11, 12, 13, 14, 15}"
    by (simp add: upt_rec numeral_nat)
  then show ?thesis
    by (auto simp: hex_value_def hex_digit_def)
qed

lemma hex_digit_not_space: "n < 16 \<Longrightarrow> \<not> is_space (hex_digit n)"
proof -
  assume "n < 16"
  then have "n \<in> set [0..<16]" by simp
  then have "n \<in> {0, 1, 2, 3, 4, 5, 6, 7, 8, 9, 10, 11, 12, 13, 14, 15}"
    by (simp add: upt_rec numeral_nat)
  then show ?thesis
    by (auto simp: is_space_def hex_digit_def)
qed

lemma hex_digit_lower: "n < 16 \<Longrightarrow> hex_digit n \<in> set ''0123456789abcdef''"
  unfolding hex_digit_def by (rule nth_mem) simp

lemma byte_of_nibbles: "word_of_nat (16 * (unat b div 16) + unat b mod 16) = (b :: byte)"
  by (simp add: mult.commute)

lemma fromhex_bytes_hex: "fromhex (bytes_hex b) = Inr b"
proof (induction b)
  case Nil
  then show ?case by (simp add: bytes_hex_def)
next
  case (Cons x xs)
  have hi: "unat x div 16 < 16"
    using unsigned_less [of x, where ?'a = nat] by simp
  have lo: "unat x mod 16 < 16" by simp
  have "bytes_hex (x # xs) = hex_digit (unat x div 16) # hex_digit (unat x mod 16) # bytes_hex xs"
    by (simp add: bytes_hex_def)
  then show ?case
    using Cons hi lo
    by (simp add: hex_value_hex_digit hex_digit_not_space byte_of_nibbles del: of_nat_add of_nat_mult)
qed

lemma length_bytes_hex: "length (bytes_hex b) = 2 * length b"
  by (induction b) (simp_all add: bytes_hex_def)

lemma set_bytes_hex: "set (bytes_hex b) \<subseteq> set ''0123456789abcdef''"
proof (induction b)
  case Nil
  then show ?case by (simp add: bytes_hex_def)
next
  case (Cons x xs)
  have hi: "unat x div 16 < 16"
    using unsigned_less [of x, where ?'a = nat] by simp
  have "bytes_hex (x # xs) = hex_digit (unat x div 16) # hex_digit (unat x mod 16) # bytes_hex xs"
    by (simp add: bytes_hex_def)
  then show ?case
    using Cons hex_digit_lower [OF hi] hex_digit_lower [of "unat x mod 16"] by simp
qed

lemma collect_payouts_lookup:
  "map_of (collect_payouts d es) k =
     (case filter (\<lambda>e. map_option fst (recorded e) = Some k) es of
        [] \<Rightarrow> map_of d k
      | e # es' \<Rightarrow> map_option (\<lambda>(key, p). PInt p) (recorded (last (e # es'))))"
proof (induction es arbitrary: d)
  case Nil
  then show ?case by simp
next
  case (Cons e es)
  show ?case
  proof (cases "recorded e")
    case None
    then have skip: "collect_payouts d (e # es) = collect_payouts d es"
      by (auto simp: recorded_def get_args_def get_payout_def split: option.splits if_splits)
    show ?thesis unfolding skip using None by (simp add: Cons.IH)
  next
    case (Some kp)
    obtain key p where kp: "kp = (key, p)" by (cases kp)
    have put: "collect_payouts d (e # es) = collect_payouts (dict_set d key (PInt p)) es"
      using Some kp
      by (auto simp: recorded_def get_args_def get_payout_def
          split: option.splits if_splits cond_id.splits)
    show ?thesis
      unfolding put using Some kp by (auto simp: Cons.IH map_of_dict_set split: list.splits)
  qed
qed


lemma holdings_step_returns:
  assumes "reads_of_element ledger_api condition_id creator collateral_token market
             parent_collection_id i = Inr r"
  shows "holdings_step ledger_api condition_id creator collateral_token market
           parent_collection_id i (holdings, shares) calls
         = (Inr (holdings @ [el_holding r], shares @ [el_share r]),
            calls @ calls_of_element parent_collection_id condition_id i r)"
  using assms
  by (auto simp: reads_of_element_def holdings_step_def then_call_def without_call_def
      call_getCollectionId_def call_solidity_keccak_def call_balanceOf_def
      calls_of_element_def Let_def split: sum.splits)

lemma holdings_step_raises:
  assumes "reads_of_element ledger_api condition_id creator collateral_token market
             parent_collection_id i = Inl x"
  shows "fst (holdings_step ledger_api condition_id creator collateral_token market
           parent_collection_id i (holdings, shares) calls) = Inl x"
  using assms
  by (auto simp: reads_of_element_def holdings_step_def then_call_def without_call_def
      call_getCollectionId_def call_solidity_keccak_def call_balanceOf_def
      Let_def split: sum.splits)

lemma holdings_loop_returns:
  assumes "list_all2 (\<lambda>i r. reads_of_element ledger_api condition_id creator collateral_token
             market parent_collection_id i = Inr r) part rs"
  shows "holdings_loop ledger_api condition_id creator collateral_token market
           parent_collection_id part (holdings, shares) calls
         = (Inr (holdings @ map el_holding rs, shares @ map el_share rs),
            calls @ concat (map2 (calls_of_element parent_collection_id condition_id) part rs))"
  using assms
proof (induction part rs arbitrary: holdings shares calls rule: list_all2_induct)
  case Nil
  then show ?case by (simp add: without_call_def)
next
  case (Cons i r part rs)
  show ?case
    by (simp add: then_call_def holdings_step_returns [OF Cons.hyps(1)] Cons.IH)
qed

lemma holdings_loop_raises:
  assumes "list_all2 (\<lambda>i r. reads_of_element ledger_api condition_id creator collateral_token
             market parent_collection_id i = Inr r) part rs"
    and "reads_of_element ledger_api condition_id creator collateral_token
             market parent_collection_id j = Inl x"
  shows "fst (holdings_loop ledger_api condition_id creator collateral_token market
           parent_collection_id (part @ j # rest) (holdings, shares) calls) = Inl x"
  using assms(1)
proof (induction part rs arbitrary: holdings shares calls rule: list_all2_induct)
  case Nil
  have "\<exists>calls'. holdings_step ledger_api condition_id creator collateral_token market
           parent_collection_id j (holdings, shares) calls = (Inl x, calls')"
    using holdings_step_raises [OF assms(2), of holdings shares calls]
    by (metis fst_conv surj_pair)
  then show ?case by (auto simp: then_call_def)
next
  case (Cons i r part rs)
  show ?case
    by (simp add: then_call_def holdings_step_returns [OF Cons.hyps(1)] Cons.IH)
qed

lemma reads_of_element_Inr:
  assumes "reads_of_element ledger_api condition_id creator collateral_token market
             parent_collection_id i = Inr r"
  shows "to_checksum_address ledger_api market = Inr (el_market r)
       \<and> balanceOf ledger_api (el_market r) (el_position_id r) = Inr (el_holding r)
       \<and> to_checksum_address ledger_api creator = Inr (el_creator r)
       \<and> balanceOf ledger_api (el_creator r) (el_position_id r) = Inr (el_share r)"
  using assms by (auto simp: reads_of_element_def split: sum.splits)

lemma count_calls_elements:
  "length part = length rs \<Longrightarrow>
   count_calls k (concat (map2 (calls_of_element parent_collection_id condition_id) part rs))
     = (if k = Balance then 2 * length rs else length rs)"
  by (induction part rs rule: list_induct2)
    (cases k; simp add: count_calls_def calls_of_element_def)+


lemma get_user_holdings_raises:
  assumes "j < nat n"
    and "list_all2 (\<lambda>k r. reads_of_element ledger_api condition_id creator collateral_token
           market parent_collection_id (2 ^ k) = Inr r) [0..<j] rs"
    and "reads_of_element ledger_api condition_id creator collateral_token
           market parent_collection_id (2 ^ j) = Inl x"
  shows "fst (get_user_holdings ledger_api n condition_id creator collateral_token market
           parent_collection_id) = Inl x"
proof -
  have "[0..<nat n] = [0..<j] @ j # [Suc j..<nat n]"
    using assms(1) by (metis less_imp_le_nat upt_add_eq_append upt_conv_Cons le_add_diff_inverse zero_le)
  then have part: "map (\<lambda>k. (2::int) ^ k) [0..<nat n]
      = map (\<lambda>k. 2 ^ k) [0..<j] @ 2 ^ j # map (\<lambda>k. 2 ^ k) [Suc j..<nat n]"
    by simp
  have all: "list_all2 (\<lambda>i r. reads_of_element ledger_api condition_id creator collateral_token
           market parent_collection_id i = Inr r) (map (\<lambda>k. (2::int) ^ k) [0..<j]) rs"
    using assms(2) by (simp add: list_all2_map1)
  have "\<exists>calls'. holdings_loop ledger_api condition_id creator collateral_token market
           parent_collection_id (map (\<lambda>k. (2::int) ^ k) [0..<nat n]) ([], []) [] = (Inl x, calls')"
    unfolding part using holdings_loop_raises [OF all assms(3), of _ "[]" "[]" "[]"]
    by (metis fst_conv surj_pair)
  then show ?thesis
    by (auto simp: get_user_holdings_def get_partitions_eq then_call_def without_call_def)
qed

subsection \<open>The partition generator\<close>

text \<open>
  C2. For every positive \<open>n\<close>, \<open>get_partitions n\<close> returns the list
  \<open>[1<<0, 1<<1, ..., 1<<(n-1)]\<close>: it has \<open>n\<close> elements, they are pairwise distinct,
  each is a power of two, and their bitwise OR is \<open>2^n - 1\<close>.
\<close>

theorem get_partitions_positive:
  assumes "0 < n"
  shows "\<exists>ps. get_partitions n = Inr ps
           \<and> ps = map (\<lambda>k. 2 ^ k) [0..<nat n]
           \<and> int (length ps) = n
           \<and> distinct ps
           \<and> (\<forall>i < length ps. ps ! i = push_bit i 1)
           \<and> (\<forall>p \<in> set ps. \<exists>k. p = 2 ^ k)
           \<and> or_all ps = 2 ^ nat n - 1"
  using assms by (auto simp: get_partitions_eq or_all_pow2 distinct_pow2)

theorem get_partitions_positive_witness:
  "(0::int) < 3 \<and> get_partitions 3 = Inr [1, 2, 4] \<and> or_all [1, 2, 4] = 7"
  using get_partitions_positive [of 3] by (auto simp: upt_rec numeral_nat)

text \<open>
  C4, counterexample. The claim is that \<open>get_partitions n\<close> fails for \<open>n \<le> 0\<close>.
  For 0 and for -1 it returns the empty list.
\<close>

theorem get_partitions_zero_counterexample:
  "get_partitions 0 = Inr [] \<and> get_partitions (- 1) = Inr []"
  by (simp add: get_partitions_def py_range_def)

text \<open>
  C4, as amended. The function has no check of its argument: for every \<open>n \<le> 0\<close>,
  \<^verbatim>\<open>range(count)\<close> is empty and \<open>get_partitions n\<close> returns the empty list.
\<close>

theorem get_partitions_nonpositive:
  assumes "n \<le> 0"
  shows "get_partitions n = Inr []"
  using assms by (simp add: get_partitions_eq)

theorem get_partitions_nonpositive_witness:
  "(- 5 :: int) \<le> 0 \<and> get_partitions (- 5) = Inr []"
  using get_partitions_nonpositive [of "- 5"] by simp

subsection \<open>The transaction and holdings assembler\<close>

text \<open>
  C8. \<open>build_merge_positions_tx\<close> encodes \<^verbatim>\<open>mergePositions\<close> with the collateral
  token, the two ids, the partition and the amount, and the partition it encodes is
  the list of the powers of two below \<open>2^outcome_slot_count\<close> in ascending order,
  computed from \<open>outcome_slot_count\<close> alone: nothing else the caller supplies (the
  keyword arguments) reaches it. For 3 slots the partition is \<open>[1, 2, 4]\<close>.
\<close>

theorem build_merge_positions_tx_partition:
  assumes "to_checksum_address ledger_api collateral_token = Inr token"
  shows "build_merge_positions_tx ledger_api collateral_token parent_collection_id condition_id
           outcome_slot_count amount kwargs
         = and_then (encodeABI ledger_api ''mergePositions''
                       [AStr token, ABytes parent_collection_id, ABytes condition_id,
                        AIntList (map (\<lambda>k. 2 ^ k) [0..<nat outcome_slot_count]), AInt amount])
             (\<lambda>data. Inr [(''data'', PStr data)])"
  using assms by (simp add: build_merge_positions_tx_def get_partitions_eq and_then_def)

theorem build_merge_positions_tx_partition_witness:
  "to_checksum_address
     (example_client\<lparr>encodeABI := \<lambda>fn_name arguments.
        if fn_name = ''mergePositions''
           \<and> arguments = [AStr ''0xDA'', ABytes [0], ABytes [0xC1], AIntList [1, 2, 4], AInt 50]
        then Inr ''0x9e7212ad'' else Inl (ClientError ''unexpected arguments'')\<rparr>)
     ''0xDA'' = Inr ''0xDA''
   \<and> build_merge_positions_tx
     (example_client\<lparr>encodeABI := \<lambda>fn_name arguments.
        if fn_name = ''mergePositions''
           \<and> arguments = [AStr ''0xDA'', ABytes [0], ABytes [0xC1], AIntList [1, 2, 4], AInt 50]
        then Inr ''0x9e7212ad'' else Inl (ClientError ''unexpected arguments'')\<rparr>)
     ''0xDA'' [0] [0xC1] 3 50 [(''partition'', PList [PInt 4, PInt 1, PInt 2])]
     = Inr [(''data'', PStr ''0x9e7212ad'')]"
proof -
  let ?c = "example_client\<lparr>encodeABI := \<lambda>fn_name arguments.
        if fn_name = ''mergePositions''
           \<and> arguments = [AStr ''0xDA'', ABytes [0], ABytes [0xC1], AIntList [1, 2, 4], AInt 50]
        then Inr ''0x9e7212ad'' else Inl (ClientError ''unexpected arguments'')\<rparr>"
  have h: "to_checksum_address ?c ''0xDA'' = Inr ''0xDA''"
    by (simp add: example_client_def)
  have three: "map (\<lambda>k. 2 ^ k) [0..<3] = [1, 2, 4 :: int]"
    by (simp add: upt_rec numeral_nat)
  show ?thesis
    using build_merge_positions_tx_partition
      [OF h, of "[0]" "[0xC1]" 3 50 "[(''partition'', PList [PInt 4, PInt 1, PInt 2])]"] h
    by (simp add: three and_then_def)
qed

subsection \<open>The redemption aggregator\<close>

text \<open>
  C1. When the filtered log query returns a list of entries, \<open>check_redeemed\<close>
  returns the mapping \<open>payouts\<close> built from it. Its keys are distinct. Under a key
  \<open>k\<close> it holds the payout of the last entry, in query order, among those that
  record something under \<open>k\<close>: the entries with a payout above zero whose condition
  id is the bytes with hexadecimal text \<open>k\<close>, or is \<open>k\<close> itself when it is not
  bytes; a key with no such entry is absent. So an entry with payout zero adds
  nothing, and a repeated condition id keeps the last payout, not the sum. The
  hexadecimal text of bytes has two characters for each byte, all of them digits or
  lower-case letters up to f, and decodes to the bytes.
\<close>

theorem check_redeemed_payouts:
  assumes "to_checksum_address ledger_api redeemer = Inr r"
    and "map_raising (to_checksum_address ledger_api) collateral_tokens = Inr toks"
    and "get_all_entries ledger_api
           \<lparr>match_redeemer = r, match_collateralToken = toks,
            match_parentCollectionId = parent_collection_ids,
            match_conditionId = condition_ids, match_indexSets = index_sets,
            fromBlock = from_block, toBlock = to_block\<rparr> = Completes (Returns redeemed)"
  shows "\<exists>payouts.
           check_redeemed ledger_api redeemer from_block to_block collateral_tokens
             parent_collection_ids condition_ids index_sets timeout
             = Some (Inr [(''payouts'', PDict payouts)])
         \<and> distinct (map fst payouts)
         \<and> (\<forall>k. map_of payouts k =
                (case filter (\<lambda>e. map_option fst (recorded e) = Some k) redeemed of
                   [] \<Rightarrow> None
                 | e # es \<Rightarrow> map_option (\<lambda>(key, p). PInt p) (recorded (last (e # es)))))
         \<and> (\<forall>b. length (bytes_hex b) = 2 * length b
                \<and> set (bytes_hex b) \<subseteq> set ''0123456789abcdef''
                \<and> fromhex (bytes_hex b) = Inr b)"
proof -
  have "check_redeemed ledger_api redeemer from_block to_block collateral_tokens
          parent_collection_ids condition_ids index_sets timeout
        = Some (Inr [(''payouts'', PDict (collect_payouts [] redeemed))])"
    using assms(3) by (simp add: check_redeemed_cases [OF assms(1) assms(2)])
  moreover have "distinct (map fst (collect_payouts [] redeemed))"
    by (rule collect_payouts_distinct) simp
  moreover have "\<forall>k. map_of (collect_payouts [] redeemed) k =
                (case filter (\<lambda>e. map_option fst (recorded e) = Some k) redeemed of
                   [] \<Rightarrow> None
                 | e # es \<Rightarrow> map_option (\<lambda>(key, p). PInt p) (recorded (last (e # es))))"
    by (simp add: collect_payouts_lookup split: list.splits)
  moreover have "\<forall>b. length (bytes_hex b) = 2 * length b
                \<and> set (bytes_hex b) \<subseteq> set ''0123456789abcdef''
                \<and> fromhex (bytes_hex b) = Inr b"
    using length_bytes_hex set_bytes_hex fromhex_bytes_hex by blast
  ultimately show ?thesis by blast
qed

theorem check_redeemed_payouts_witness:
  "to_checksum_address redeemed_client ''0xF1'' = Inr ''0xF1''
   \<and> map_raising (to_checksum_address redeemed_client) [''0xC0''] = Inr [''0xC0'']
   \<and> get_all_entries redeemed_client
         \<lparr>match_redeemer = ''0xF1'', match_collateralToken = [''0xC0''],
          match_parentCollectionId = [[0]],
          match_conditionId = [[0xAA], [0xBB], [0x01, 0xCD]], match_indexSets = [[1], [2]],
          fromBlock = 100, toBlock = 200\<rparr>
       = Completes (Returns
           [entry (IdBytes [0xAA]) 5, entry (IdBytes [0xBB]) 0, entry (IdBytes [0xAA]) 7,
            entry (IdBytes [0x01, 0xCD]) 3])
   \<and> check_redeemed redeemed_client ''0xF1'' 100 200 [''0xC0''] [[0]]
         [[0xAA], [0xBB], [0x01, 0xCD]] [[1], [2]] FIVE_MINUTES
       = Some (Inr [(''payouts'', PDict [(''aa'', PInt 7), (''01cd'', PInt 3)])])
   \<and> recorded (entry (IdBytes [0xAA]) 7) = Some (''aa'', 7)
   \<and> recorded (entry (IdBytes [0xBB]) 0) = None
   \<and> recorded (entry (IdBytes [0x01, 0xCD]) 3) = Some (''01cd'', 3)
   \<and> fromhex ''01cd'' = Inr [0x01, 0xCD]"
proof -
  have h1: "to_checksum_address redeemed_client ''0xF1'' = Inr ''0xF1''"
    by (simp add: redeemed_client_def example_client_def)
  have h2: "map_raising (to_checksum_address redeemed_client) [''0xC0''] = Inr [''0xC0'']"
    by (simp add: redeemed_client_def example_client_def)
  have h3: "get_all_entries redeemed_client
         \<lparr>match_redeemer = ''0xF1'', match_collateralToken = [''0xC0''],
          match_parentCollectionId = [[0]],
          match_conditionId = [[0xAA], [0xBB], [0x01, 0xCD]], match_indexSets = [[1], [2]],
          fromBlock = 100, toBlock = 200\<rparr>
       = Completes (Returns
           [entry (IdBytes [0xAA]) 5, entry (IdBytes [0xBB]) 0, entry (IdBytes [0xAA]) 7,
            entry (IdBytes [0x01, 0xCD]) 3])"
    by (simp add: redeemed_client_def)
  have run: "check_redeemed redeemed_client ''0xF1'' 100 200 [''0xC0''] [[0]]
         [[0xAA], [0xBB], [0x01, 0xCD]] [[1], [2]] FIVE_MINUTES
       = Some (Inr [(''payouts'', PDict [(''aa'', PInt 7), (''01cd'', PInt 3)])])"
    by (simp add: check_redeemed_def get_redeem_events_def execute_with_timeout_def
        redeemed_client_def example_client_def entry_def get_args_def get_payout_def
        bytes_hex_def hex_digit_def)
  have rec: "recorded (entry (IdBytes [0xAA]) 7) = Some (''aa'', 7)"
      "recorded (entry (IdBytes [0xBB]) 0) = None"
      "recorded (entry (IdBytes [0x01, 0xCD]) 3) = Some (''01cd'', 3)"
    by (simp_all add: recorded_def entry_def bytes_hex_def hex_digit_def)
  have dec: "fromhex ''01cd'' = Inr [0x01, 0xCD]"
    by (simp add: hex_value_def is_space_def)
  show ?thesis
    using check_redeemed_payouts [OF h1 h2 h3, of FIVE_MINUTES] h1 h2 h3 run rec dec by simp
qed

subsection \<open>The holdings\<close>

text \<open>
  C9. When the reads for the partition elements \<open>2^0, ..., 2^(n-1)\<close> return,
  \<open>get_user_holdings\<close> for \<open>n\<close> slots returns \<open>holdings\<close> and \<open>shares\<close> of
  length \<open>n\<close> each, which are, element by element, the balances read for the market
  and for the creator; and the calls it has made are, for each partition element in
  partition order, one collection-id derivation for that element, one position-id
  derivation from the collateral token and that collection id, and two balance reads
  of that position, the first for the market and the second for the creator: \<open>n\<close>,
  \<open>n\<close> and \<open>2n\<close> calls in all.
\<close>

theorem get_user_holdings_reads:
  assumes "0 \<le> n"
    and "list_all2 (\<lambda>k r. reads_of_element ledger_api condition_id creator collateral_token
           market parent_collection_id (2 ^ k) = Inr r) [0..<nat n] rs"
  shows "get_user_holdings ledger_api n condition_id creator collateral_token market
           parent_collection_id
         = (Inr [(''holdings'', PList (map (\<lambda>r. PInt (el_holding r)) rs)),
                 (''shares'', PList (map (\<lambda>r. PInt (el_share r)) rs))],
            concat (map2 (\<lambda>k r.
              [GetCollectionIdCall parent_collection_id condition_id (2 ^ k),
               SolidityKeccakCall [''address'', ''uint256'']
                 [AStr (el_token r), AInt (el_collection_id r)],
               BalanceOfCall (el_market r) (el_position_id r),
               BalanceOfCall (el_creator r) (el_position_id r)]) [0..<nat n] rs))
       \<and> int (length rs) = n
       \<and> int (count_calls CollectionId (snd (get_user_holdings ledger_api n condition_id
             creator collateral_token market parent_collection_id))) = n
       \<and> int (count_calls PositionId (snd (get_user_holdings ledger_api n condition_id
             creator collateral_token market parent_collection_id))) = n
       \<and> int (count_calls Balance (snd (get_user_holdings ledger_api n condition_id
             creator collateral_token market parent_collection_id))) = 2 * n
       \<and> (\<forall>r \<in> set rs.
             to_checksum_address ledger_api market = Inr (el_market r)
           \<and> balanceOf ledger_api (el_market r) (el_position_id r) = Inr (el_holding r)
           \<and> to_checksum_address ledger_api creator = Inr (el_creator r)
           \<and> balanceOf ledger_api (el_creator r) (el_position_id r) = Inr (el_share r))"
proof -
  let ?part = "map (\<lambda>k. (2::int) ^ k) [0..<nat n]"
  let ?calls = "concat (map2 (calls_of_element parent_collection_id condition_id) ?part rs)"
  have all: "list_all2 (\<lambda>i r. reads_of_element ledger_api condition_id creator collateral_token
           market parent_collection_id i = Inr r) ?part rs"
    using assms(2) by (simp add: list_all2_map1)
  have len: "length rs = nat n"
    using assms(2) by (auto dest: list_all2_lengthD)
  have run: "get_user_holdings ledger_api n condition_id creator collateral_token market
           parent_collection_id
         = (Inr [(''holdings'', PList (map (\<lambda>r. PInt (el_holding r)) rs)),
                 (''shares'', PList (map (\<lambda>r. PInt (el_share r)) rs))], ?calls)"
    by (simp add: get_user_holdings_def get_partitions_eq then_call_def without_call_def
        holdings_loop_returns [OF all] comp_def)
  have calls: "?calls = concat (map2 (\<lambda>k r.
              [GetCollectionIdCall parent_collection_id condition_id (2 ^ k),
               SolidityKeccakCall [''address'', ''uint256'']
                 [AStr (el_token r), AInt (el_collection_id r)],
               BalanceOfCall (el_market r) (el_position_id r),
               BalanceOfCall (el_creator r) (el_position_id r)]) [0..<nat n] rs)"
    by (simp add: zip_map1 calls_of_element_def case_prod_unfold comp_def)
  have counts: "count_calls k ?calls = (if k = Balance then 2 * length rs else length rs)" for k
    by (rule count_calls_elements) (simp add: len)
  have reads: "\<forall>r \<in> set rs.
             to_checksum_address ledger_api market = Inr (el_market r)
           \<and> balanceOf ledger_api (el_market r) (el_position_id r) = Inr (el_holding r)
           \<and> to_checksum_address ledger_api creator = Inr (el_creator r)
           \<and> balanceOf ledger_api (el_creator r) (el_position_id r) = Inr (el_share r)"
  proof
    fix r assume "r \<in> set rs"
    then obtain i where "reads_of_element ledger_api condition_id creator collateral_token
           market parent_collection_id i = Inr r"
      using all by (auto simp: list_all2_conv_all_nth in_set_conv_nth)
    then show "to_checksum_address ledger_api market = Inr (el_market r)
           \<and> balanceOf ledger_api (el_market r) (el_position_id r) = Inr (el_holding r)
           \<and> to_checksum_address ledger_api creator = Inr (el_creator r)
           \<and> balanceOf ledger_api (el_creator r) (el_position_id r) = Inr (el_share r)"
      by (rule reads_of_element_Inr)
  qed
  show ?thesis
    using run calls counts reads len assms(1) by simp
qed

theorem get_user_holdings_reads_witness:
  "(0::int) \<le> 2
   \<and> list_all2 (\<lambda>k r. reads_of_element holding_client ''0xC1'' ''0xBB'' ''0xDA'' ''0xAA''
           ''0x00'' (2 ^ k) = Inr r) [0..<nat 2]
        [\<lparr>el_collection_id = 1, el_token = ''0xDA'', el_position_id = 308,
          el_market = ''0xAA'', el_holding = 308, el_creator = ''0xBB'', el_share = 1308\<rparr>,
         \<lparr>el_collection_id = 2, el_token = ''0xDA'', el_position_id = 564,
          el_market = ''0xAA'', el_holding = 564, el_creator = ''0xBB'', el_share = 1564\<rparr>]
   \<and> get_user_holdings holding_client 2 ''0xC1'' ''0xBB'' ''0xDA'' ''0xAA'' ''0x00''
      = (Inr [(''holdings'', PList [PInt 308, PInt 564]),
              (''shares'', PList [PInt 1308, PInt 1564])],
         [GetCollectionIdCall ''0x00'' ''0xC1'' 1,
          SolidityKeccakCall [''address'', ''uint256''] [AStr ''0xDA'', AInt 1],
          BalanceOfCall ''0xAA'' 308, BalanceOfCall ''0xBB'' 308,
          GetCollectionIdCall ''0x00'' ''0xC1'' 2,
          SolidityKeccakCall [''address'', ''uint256''] [AStr ''0xDA'', AInt 2],
          BalanceOfCall ''0xAA'' 564, BalanceOfCall ''0xBB'' 564])
   \<and> count_calls CollectionId (snd (get_user_holdings holding_client 2 ''0xC1'' ''0xBB''
         ''0xDA'' ''0xAA'' ''0x00'')) = 2
   \<and> count_calls PositionId (snd (get_user_holdings holding_client 2 ''0xC1'' ''0xBB''
         ''0xDA'' ''0xAA'' ''0x00'')) = 2
   \<and> count_calls Balance (snd (get_user_holdings holding_client 2 ''0xC1'' ''0xBB''
         ''0xDA'' ''0xAA'' ''0x00'')) = 4"
proof -
  let ?rs = "[\<lparr>el_collection_id = 1, el_token = ''0xDA'', el_position_id = 308,
          el_market = ''0xAA'', el_holding = 308, el_creator = ''0xBB'', el_share = 1308\<rparr>,
         \<lparr>el_collection_id = 2, el_token = ''0xDA'', el_position_id = 564,
          el_market = ''0xAA'', el_holding = 564, el_creator = ''0xBB'', el_share = 1564\<rparr>]"
  have n: "(0::int) \<le> 2" by simp
  have two: "[0..<2] = [0, 1 :: nat]"
    by (simp add: upt_rec numeral_nat)
  have reads: "list_all2 (\<lambda>k r. reads_of_element holding_client ''0xC1'' ''0xBB'' ''0xDA''
           ''0xAA'' ''0x00'' (2 ^ k) = Inr r) [0..<nat 2] ?rs"
    by (simp add: two reads_of_element_def holding_client_def example_client_def
        int_from_bytes_big_def)
  show ?thesis
    using get_user_holdings_reads [OF n reads] n reads
    by (simp add: two count_calls_def)
qed

subsection \<open>The uniform result shape\<close>

text \<open>
  C7, counterexample. The claim is that every public operation returns a mapping
  and none raises. \<open>check_resolved\<close> and \<open>get_user_holdings\<close> have no handler: an
  exception of a chain read leaves them; \<open>get_raw_transaction\<close> always raises.
\<close>

theorem uniform_result_counterexample:
  "check_resolved failing_client [0xC1] = Inl RequestsReadTimeoutError
   \<and> fst (get_user_holdings failing_client 2 ''0xC1'' ''0xBB'' ''0xDA'' ''0xAA'' ''0x00'')
       = Inl (ClientError ''execution reverted'')
   \<and> get_raw_transaction example_client [] = Inl NotImplementedError"
  by (simp add: check_resolved_def and_then_def failing_client_def example_client_def
      get_raw_transaction_def get_user_holdings_def get_partitions_def py_range_def
      upto_rec1 lshift_def then_call_def without_call_def holdings_step_def
      call_getCollectionId_def)

text \<open>
  C7, as amended. Given the checksums, \<open>check_redeemed\<close> returns a mapping with
  the single field \<open>error\<close> when the log query raises one of the two read-timeout
  exceptions (the block-range and batch-size diagnostic) and when the query completes
  only after the timeout (the executor's message); any other exception of the query
  but a TimeoutError is raised to the caller. \<open>check_resolved\<close> returns \<open>resolved\<close>,
  true exactly when the payout denominator is not zero, when the read returns, and
  raises the exception of the read otherwise. \<open>get_user_holdings\<close> raises the
  exception of the first read that raises, at whichever partition element and
  whichever of its reads that is. \<open>get_raw_transaction\<close>, \<open>get_raw_message\<close> and
  \<open>get_state\<close> always raise NotImplementedError.
\<close>

theorem failure_conversion:
  assumes "to_checksum_address ledger_api redeemer = Inr r"
    and "map_raising (to_checksum_address ledger_api) collateral_tokens = Inr toks"
  shows "(get_all_entries ledger_api
            \<lparr>match_redeemer = r, match_collateralToken = toks,
             match_parentCollectionId = parent_collection_ids,
             match_conditionId = condition_ids, match_indexSets = index_sets,
             fromBlock = from_block, toBlock = to_block\<rparr> = Completes (Raises e)
          \<and> (e = Urllib3ReadTimeoutError \<or> e = RequestsReadTimeoutError)
          \<longrightarrow> check_redeemed ledger_api redeemer from_block to_block collateral_tokens
                parent_collection_ids condition_ids index_sets timeout
              = Some (Inr [(''error'', PStr (rpc_timed_out_message from_block to_block))]))
       \<and> (get_all_entries ledger_api
            \<lparr>match_redeemer = r, match_collateralToken = toks,
             match_parentCollectionId = parent_collection_ids,
             match_conditionId = condition_ids, match_indexSets = index_sets,
             fromBlock = from_block, toBlock = to_block\<rparr> = Completes_late
          \<longrightarrow> check_redeemed ledger_api redeemer from_block to_block collateral_tokens
                parent_collection_ids condition_ids index_sets timeout
              = Some (Inr [(''error'', PStr (timeout_message timeout))]))
       \<and> (get_all_entries ledger_api
            \<lparr>match_redeemer = r, match_collateralToken = toks,
             match_parentCollectionId = parent_collection_ids,
             match_conditionId = condition_ids, match_indexSets = index_sets,
             fromBlock = from_block, toBlock = to_block\<rparr> = Completes (Raises e)
          \<and> e \<noteq> Urllib3ReadTimeoutError \<and> e \<noteq> RequestsReadTimeoutError \<and> e \<noteq> TimeoutError
          \<longrightarrow> check_redeemed ledger_api redeemer from_block to_block collateral_tokens
                parent_collection_ids condition_ids index_sets timeout
              = Some (Inl e))
       \<and> (payoutDenominator ledger_api c = Inr p
          \<longrightarrow> check_resolved ledger_api c = Inr [(''resolved'', PBool (p \<noteq> 0))])
       \<and> (payoutDenominator ledger_api c = Inl x
          \<longrightarrow> check_resolved ledger_api c = Inl x)
       \<and> (j < nat n
          \<and> list_all2 (\<lambda>k r. reads_of_element ledger_api condition_id creator collateral_token
                market parent_collection_id (2 ^ k) = Inr r) [0..<j] rs
          \<and> reads_of_element ledger_api condition_id creator collateral_token
                market parent_collection_id (2 ^ j) = Inl x
          \<longrightarrow> fst (get_user_holdings ledger_api n condition_id creator collateral_token market
                parent_collection_id) = Inl x)
       \<and> get_raw_transaction ledger_api kwargs = Inl NotImplementedError
       \<and> get_raw_message ledger_api kwargs = Inl NotImplementedError
       \<and> get_state ledger_api kwargs = Inl NotImplementedError"
proof -
  have holdings: "j < nat n
          \<and> list_all2 (\<lambda>k r. reads_of_element ledger_api condition_id creator collateral_token
                market parent_collection_id (2 ^ k) = Inr r) [0..<j] rs
          \<and> reads_of_element ledger_api condition_id creator collateral_token
                market parent_collection_id (2 ^ j) = Inl x
          \<longrightarrow> fst (get_user_holdings ledger_api n condition_id creator collateral_token market
                parent_collection_id) = Inl x"
    using get_user_holdings_raises by blast
  show ?thesis
    using holdings
    by (simp add: check_redeemed_cases [OF assms] check_resolved_def and_then_def
        get_raw_transaction_def get_raw_message_def get_state_def)
qed


theorem failure_conversion_witness:
  "check_redeemed timing_out_client ''0xF1'' 100 200 [''0xC0''] [[0]] [[0xC1]] [[1], [2]]
       FIVE_MINUTES
     = Some (Inr [(''error'', PStr (''The RPC timed out! This usually happens if the filtering is too wide. ''
          @ ''The service tried to filter from block 100 to 200. ''
          @ ''If this issue persists, please try lowering the `EVENT_FILTERING_BATCH_SIZE`!''))])
   \<and> check_resolved timing_out_client [0xC1] = Inr [(''resolved'', PBool False)]
   \<and> check_redeemed failing_client ''0xF1'' 100 200 [''0xC0''] [[0]] [[0xC1]] [[1], [2]]
       FIVE_MINUTES
     = Some (Inr [(''error'', PStr ''The RPC didn't respond in 300.0.'')])
   \<and> check_resolved failing_client [0xC1] = Inl RequestsReadTimeoutError
   \<and> check_redeemed balance_failing_client ''0xF1'' 100 200 [''0xC0''] [[0]] [[0xC1]]
       [[1], [2]] FIVE_MINUTES
     = Some (Inl ValueError)
   \<and> reads_of_element balance_failing_client ''0xC1'' ''0xBB'' ''0xDA'' ''0xAA'' ''0x00'' 1
     = Inr \<lparr>el_collection_id = 1, el_token = ''0xDA'', el_position_id = 308,
            el_market = ''0xAA'', el_holding = 308, el_creator = ''0xBB'', el_share = 308\<rparr>
   \<and> reads_of_element balance_failing_client ''0xC1'' ''0xBB'' ''0xDA'' ''0xAA'' ''0x00'' 2
     = Inl (ClientError ''execution reverted'')
   \<and> fst (get_user_holdings balance_failing_client 2 ''0xC1'' ''0xBB'' ''0xDA'' ''0xAA''
         ''0x00'')
     = Inl (ClientError ''execution reverted'')
   \<and> get_raw_transaction timing_out_client [] = Inl NotImplementedError
   \<and> get_raw_message timing_out_client [] = Inl NotImplementedError
   \<and> get_state timing_out_client [] = Inl NotImplementedError"
proof -
  have a1: "to_checksum_address timing_out_client ''0xF1'' = Inr ''0xF1''"
    and a2: "map_raising (to_checksum_address timing_out_client) [''0xC0''] = Inr [''0xC0'']"
    and a3: "get_all_entries timing_out_client f = Completes (Raises Urllib3ReadTimeoutError)"
    and a4: "payoutDenominator timing_out_client c = Inr 0" for f c
    by (simp_all add: timing_out_client_def example_client_def)
  have b1: "to_checksum_address failing_client ''0xF1'' = Inr ''0xF1''"
    and b2: "map_raising (to_checksum_address failing_client) [''0xC0''] = Inr [''0xC0'']"
    and b3: "get_all_entries failing_client f = Completes_late"
    and b4: "payoutDenominator failing_client c = Inl RequestsReadTimeoutError"
    for f c
    by (simp_all add: failing_client_def example_client_def)
  have c1: "to_checksum_address balance_failing_client ''0xF1'' = Inr ''0xF1''"
    and c2: "map_raising (to_checksum_address balance_failing_client) [''0xC0''] = Inr [''0xC0'']"
    and c3: "get_all_entries balance_failing_client f = Completes (Raises ValueError)"
    for f
    by (simp_all add: balance_failing_client_def holding_client_def example_client_def)
  have c4: "reads_of_element balance_failing_client ''0xC1'' ''0xBB'' ''0xDA'' ''0xAA'' ''0x00'' 1
     = Inr \<lparr>el_collection_id = 1, el_token = ''0xDA'', el_position_id = 308,
            el_market = ''0xAA'', el_holding = 308, el_creator = ''0xBB'', el_share = 308\<rparr>"
    and c5: "reads_of_element balance_failing_client ''0xC1'' ''0xBB'' ''0xDA'' ''0xAA'' ''0x00'' 2
     = Inl (ClientError ''execution reverted'')"
    by (simp_all add: reads_of_element_def balance_failing_client_def holding_client_def
        example_client_def int_from_bytes_big_def)
  have one: "[0..<1] = [0 :: nat]" by simp
  have msg: "rpc_timed_out_message 100 200 =
      ''The RPC timed out! This usually happens if the filtering is too wide. ''
          @ ''The service tried to filter from block 100 to 200. ''
          @ ''If this issue persists, please try lowering the `EVENT_FILTERING_BATCH_SIZE`!''"
    by (simp add: rpc_timed_out_message_def str_int_def)
  have msg2: "timeout_message FIVE_MINUTES = ''The RPC didn't respond in 300.0.''"
    by (simp add: timeout_message_def FIVE_MINUTES_def)
  have t1: "check_redeemed timing_out_client ''0xF1'' 100 200 [''0xC0''] [[0]] [[0xC1]]
        [[1], [2]] FIVE_MINUTES
      = Some (Inr [(''error'', PStr (rpc_timed_out_message 100 200))])"
    and t2: "check_resolved timing_out_client [0xC1] = Inr [(''resolved'', PBool False)]"
    and t3: "get_raw_transaction timing_out_client [] = Inl NotImplementedError"
      "get_raw_message timing_out_client [] = Inl NotImplementedError"
      "get_state timing_out_client [] = Inl NotImplementedError"
    using failure_conversion [OF a1 a2, where e = Urllib3ReadTimeoutError and p = 0
        and c = "[0xC1]" and kwargs = "[]" and parent_collection_ids = "[[0]]"
        and condition_ids = "[[0xC1]]" and index_sets = "[[1], [2]]" and from_block = 100
        and to_block = 200 and timeout = FIVE_MINUTES]
    by (simp_all add: a3 a4)
  have t4: "check_redeemed failing_client ''0xF1'' 100 200 [''0xC0''] [[0]] [[0xC1]] [[1], [2]]
       FIVE_MINUTES
     = Some (Inr [(''error'', PStr (timeout_message FIVE_MINUTES))])"
    and t5: "check_resolved failing_client [0xC1] = Inl RequestsReadTimeoutError"
    using failure_conversion [OF b1 b2, where x = RequestsReadTimeoutError
        and c = "[0xC1]" and parent_collection_ids = "[[0]]"
        and condition_ids = "[[0xC1]]" and index_sets = "[[1], [2]]" and from_block = 100
        and to_block = 200 and timeout = FIVE_MINUTES]
    by (simp_all add: b3 b4)
  have t6: "check_redeemed balance_failing_client ''0xF1'' 100 200 [''0xC0''] [[0]] [[0xC1]]
       [[1], [2]] FIVE_MINUTES = Some (Inl ValueError)"
    and t7: "fst (get_user_holdings balance_failing_client 2 ''0xC1'' ''0xBB'' ''0xDA'' ''0xAA''
         ''0x00'') = Inl (ClientError ''execution reverted'')"
    using failure_conversion [OF c1 c2, where e = ValueError
        and x = "ClientError ''execution reverted''" and j = 1 and n = 2
        and rs = "[\<lparr>el_collection_id = 1, el_token = ''0xDA'', el_position_id = 308,
            el_market = ''0xAA'', el_holding = 308, el_creator = ''0xBB'', el_share = 308\<rparr>]"
        and condition_id = "''0xC1''" and creator = "''0xBB''" and collateral_token = "''0xDA''"
        and market = "''0xAA''" and parent_collection_id = "''0x00''"
        and parent_collection_ids = "[[0]]"
        and condition_ids = "[[0xC1]]" and index_sets = "[[1], [2]]" and from_block = 100
        and to_block = 200 and timeout = FIVE_MINUTES]
    by (simp_all add: c3 c4 c5 one)
  show ?thesis
    using t1 t2 t3 t4 t5 t6 t7 c4 c5 by (simp add: msg msg2)
qed

subsection \<open>The condition id\<close>




subsection \<open>The bounded executor\<close>

text \<open>
  C5, at an operation that never completes and at one that completes after the
  timeout. The claim is that the executor then returns no value and the timeout
  error. For the operation that completes late it does, once the operation has
  completed; for the one that never completes the call never returns, because the
  \<^verbatim>\<open>return\<close> leaves the \<^verbatim>\<open>with\<close> block of the thread pool, which waits for
  the worker.
\<close>

theorem execute_with_timeout_never_completes:
  "execute_with_timeout (Never_completes :: unit py_any run) (Seconds ''0.05'') = None
   \<and> execute_with_timeout (Completes_late :: unit py_any run) (Seconds ''0.05'')
       = Some (Inr (None, Some ''The RPC didn't respond in 0.05.''))"
  by (simp add: execute_with_timeout_def timeout_message_def)

text \<open>
  C6. An operation that completes within the timeout and returns an error string:
  the executor returns that string as the error, with no value.
\<close>

theorem execute_with_timeout_error_string:
  "execute_with_timeout (Completes (Returns (PyStr s))) timeout = Some (Inr (None, Some s))"
  by (simp add: execute_with_timeout_def)

text \<open>
  C10. Any string an operation returns in time comes back as the error: the result
  of an operation that returned \<open>data\<close> in time is \<open>(None, e)\<close> exactly when \<open>data\<close>
  is the string \<open>e\<close>, and \<open>(data, None)\<close> exactly when \<open>data\<close> is not a string; no
  run of any operation makes the executor return a string as the value.
\<close>

theorem execute_with_timeout_string_is_error:
  "(execute_with_timeout (Completes (Returns data)) timeout = Some (Inr (None, Some e))
      \<longleftrightarrow> data = PyStr e)
   \<and> (execute_with_timeout (Completes (Returns data)) timeout = Some (Inr (Some data, None))
      \<longleftrightarrow> (\<exists>x. data = PyObj x))
   \<and> execute_with_timeout func timeout \<noteq> Some (Inr (Some (PyStr s), err))"
  by (auto simp: execute_with_timeout_def split: run.splits outcome.splits py_any.splits)

end
